theory Spec2Isabelle
  imports Main
begin

section \<open>Exceptions\<close>

text \<open>
  The exceptions that can leave the functions of \<^verbatim>\<open>lib/gmail-fetch.py\<close>. Only
  \<open>HttpError\<close> is ever caught by name (\<^verbatim>\<open>except HttpError\<close>); every other
  exception leaves a gateway method. A function that can raise returns \<open>exn + 'a\<close>,
  \<open>Inl\<close> being the raised exception.
\<close>

datatype exn =
    HttpError nat string
  | KeyError string
  | ValueError
  | BinasciiError
  | UnicodeDecodeError
  | RefreshError string
  | OtherError string

fun is_HttpError :: "exn \<Rightarrow> bool" where
  "is_HttpError (HttpError status reason) = True"
| "is_HttpError e = False"

section \<open>Strings and bytes\<close>

text \<open>
  A Python \<^verbatim>\<open>bytes\<close> value is a list of 8-bit characters. A Python \<^verbatim>\<open>str\<close> is
  represented by its UTF-8 encoding, so \<^verbatim>\<open>s.encode('utf-8')\<close> is the identity on
  representations and \<^verbatim>\<open>b.decode('utf-8')\<close> succeeds exactly on well-formed UTF-8
  (strings with lone surrogates have no representation here).
\<close>

definition continuation :: "char \<Rightarrow> bool" where
  "continuation c = (0x80 \<le> (of_char c :: nat) \<and> (of_char c :: nat) \<le> 0xBF)"

definition between :: "nat \<Rightarrow> char \<Rightarrow> nat \<Rightarrow> bool" where
  "between lo c hi = (lo \<le> of_char c \<and> (of_char c :: nat) \<le> hi)"

fun utf8_valid :: "string \<Rightarrow> bool" where
  "utf8_valid [] = True"
| "utf8_valid [a] = between 0 a 0x7F"
| "utf8_valid [a, b] =
     (if between 0 a 0x7F then utf8_valid [b]
      else between 0xC2 a 0xDF \<and> continuation b)"
| "utf8_valid [a, b, c] =
     (if between 0 a 0x7F then utf8_valid [b, c]
      else if between 0xC2 a 0xDF then continuation b \<and> utf8_valid [c]
      else if between 0xE0 a 0xE0 then between 0xA0 b 0xBF \<and> continuation c
      else if between 0xED a 0xED then between 0x80 b 0x9F \<and> continuation c
      else between 0xE1 a 0xEF \<and> continuation b \<and> continuation c)"
| "utf8_valid (a # b # c # d # bs) =
     (if between 0 a 0x7F then utf8_valid (b # c # d # bs)
      else if between 0xC2 a 0xDF then continuation b \<and> utf8_valid (c # d # bs)
      else if between 0xE0 a 0xE0 then
        between 0xA0 b 0xBF \<and> continuation c \<and> utf8_valid (d # bs)
      else if between 0xED a 0xED then
        between 0x80 b 0x9F \<and> continuation c \<and> utf8_valid (d # bs)
      else if between 0xE1 a 0xEF then
        continuation b \<and> continuation c \<and> utf8_valid (d # bs)
      else if between 0xF0 a 0xF0 then
        between 0x90 b 0xBF \<and> continuation c \<and> continuation d \<and> utf8_valid bs
      else if between 0xF4 a 0xF4 then
        between 0x80 b 0x8F \<and> continuation c \<and> continuation d \<and> utf8_valid bs
      else between 0xF1 a 0xF3 \<and> continuation b \<and> continuation c \<and> continuation d
        \<and> utf8_valid bs)"

text \<open>\<^verbatim>\<open>b.decode('utf-8')\<close>\<close>

definition utf8_decode :: "string \<Rightarrow> exn + string" where
  "utf8_decode b = (if utf8_valid b then Inr b else Inl UnicodeDecodeError)"

text \<open>
  \<^verbatim>\<open>s.lower()\<close>. Only the ASCII letters are mapped: the results are compared with
  \<^verbatim>\<open>'date'\<close>, \<^verbatim>\<open>'from'\<close>, \<^verbatim>\<open>'to'\<close> and \<^verbatim>\<open>'subject'\<close> alone, and no non-ASCII character
  lowers to a letter of these words.
\<close>

definition lower_char :: "char \<Rightarrow> char" where
  "lower_char c =
     (if 65 \<le> (of_char c :: nat) \<and> (of_char c :: nat) \<le> 90
      then char_of ((of_char c :: nat) + 32) else c)"

definition lower :: "string \<Rightarrow> string" where
  "lower s = map lower_char s"

section \<open>Base64\<close>

text \<open>
  \<^verbatim>\<open>base64.urlsafe_b64encode\<close> and \<^verbatim>\<open>base64.urlsafe_b64decode\<close> of the Python standard
  library. The decoder is \<^verbatim>\<open>binascii.a2b_base64\<close> in its default, non-strict mode: characters
  outside the alphabet are skipped, a pad character ends the input once it completes a
  quad, and input that ends inside a quad raises \<^verbatim>\<open>binascii.Error\<close>.
\<close>

definition b64_alphabet :: string where
  "b64_alphabet = ''ABCDEFGHIJKLMNOPQRSTUVWXYZabcdefghijklmnopqrstuvwxyz0123456789+/''"


fun index_of :: "'a list \<Rightarrow> 'a \<Rightarrow> nat option" where
  "index_of [] y = None"
| "index_of (x # xs) y = (if x = y then Some 0 else map_option Suc (index_of xs y))"

definition b64_value :: "char \<Rightarrow> nat option" where
  "b64_value c = index_of b64_alphabet c"


fun a2b_base64 :: "string \<Rightarrow> nat \<Rightarrow> nat \<Rightarrow> nat \<Rightarrow> string \<Rightarrow> exn + string" where
  "a2b_base64 [] quad_pos leftchar pads bin =
     (if quad_pos \<noteq> 0 then Inl BinasciiError else Inr bin)"
| "a2b_base64 (this_ch # ascii_data) quad_pos leftchar pads bin =
     (if this_ch = CHR ''='' then
        (if quad_pos \<ge> 2 then
           (if quad_pos + (pads + 1) \<ge> 4 then Inr bin
            else a2b_base64 ascii_data quad_pos leftchar (pads + 1) bin)
         else a2b_base64 ascii_data quad_pos leftchar pads bin)
      else
        (case b64_value this_ch of
           None \<Rightarrow> a2b_base64 ascii_data quad_pos leftchar pads bin
         | Some v \<Rightarrow>
             (if quad_pos = 0 then a2b_base64 ascii_data 1 v 0 bin
              else if quad_pos = 1 then
                a2b_base64 ascii_data 2 (v mod 16) 0 (bin @ [char_of (leftchar * 4 + v div 16)])
              else if quad_pos = 2 then
                a2b_base64 ascii_data 3 (v mod 4) 0 (bin @ [char_of (leftchar * 16 + v div 4)])
              else a2b_base64 ascii_data 0 0 0 (bin @ [char_of (leftchar * 64 + v)]))))"


definition urlsafe_decode_translation :: "char \<Rightarrow> char" where
  "urlsafe_decode_translation c =
     (if c = CHR ''-'' then CHR ''+'' else if c = CHR ''_'' then CHR ''/'' else c)"


text \<open>A \<^verbatim>\<open>str\<close> argument is first encoded as ASCII, which raises \<^verbatim>\<open>ValueError\<close> on any
  other character.\<close>

definition urlsafe_b64decode :: "string \<Rightarrow> exn + string" where
  "urlsafe_b64decode s =
     (if list_ex (\<lambda>c. (of_char c :: nat) \<ge> 128) s then Inl ValueError
      else a2b_base64 (map urlsafe_decode_translation s) 0 0 0 [])"

section \<open>The message resource of the remote API\<close>

text \<open>
  The dictionaries of the remote API, with \<open>None\<close> for an absent key. A \<open>message\<close> is
  the API's message resource: \<^verbatim>\<open>messages().get\<close> returns one, the entries of a listing are
  such resources with \<^verbatim>\<open>id\<close> and \<^verbatim>\<open>threadId\<close> alone, and the body of \<^verbatim>\<open>messages().send\<close>
  is one with \<^verbatim>\<open>raw\<close> and, possibly, \<^verbatim>\<open>threadId\<close>. A \<open>part\<close> is a node of the payload
  tree; \<open>body_data\<close> is \<^verbatim>\<open>part['body']['data']\<close>.
\<close>

datatype header = Header (h_name: string) (h_value: string)

datatype part =
  Part (mimeType: string) (headers: "header list option")
       (body_data: "string option") (parts: "part list option")

record message =
  msg_id :: "string option"
  threadId :: "string option"
  snippet :: "string option"
  payload :: "part option"
  raw :: "string option"

text \<open>The dictionary \<^verbatim>\<open>email_data\<close> built by \<^verbatim>\<open>_parse_email\<close>.\<close>

record email =
  email_id :: string
  email_thread_id :: string
  email_snippet :: string
  email_date :: "string option"
  email_from :: "string option"
  email_to :: "string option"
  email_subject :: "string option"
  email_body :: string
  email_is_html :: bool

section \<open>Decoding: \<^verbatim>\<open>_get_message_body\<close> and \<^verbatim>\<open>_parse_email\<close>\<close>

text \<open>
  The two statements
  \<^verbatim>\<open>data = part['body']['data']; body = base64.urlsafe_b64decode(data).decode('utf-8')\<close>,
  which the source repeats in each of its four branches.
\<close>

definition decode_data :: "part \<Rightarrow> exn + string" where
  "decode_data p =
     (case body_data p of
        None \<Rightarrow> Inl (KeyError ''data'')
      | Some d \<Rightarrow>
          (case urlsafe_b64decode d of
             Inl e \<Rightarrow> Inl e
           | Inr b \<Rightarrow> utf8_decode b))"

text \<open>The loop \<^verbatim>\<open>for part in payload['parts']\<close>; both branches end in \<^verbatim>\<open>break\<close>.\<close>

fun parts_loop :: "part list \<Rightarrow> exn + string" where
  "parts_loop [] = Inr []"
| "parts_loop (p # ps) =
     (if mimeType p = ''text/plain'' then decode_data p
      else if mimeType p = ''text/html'' then decode_data p
      else parts_loop ps)"

definition get_message_body :: "part \<Rightarrow> exn + string" where
  "get_message_body pl =
     (case parts pl of
        Some ps \<Rightarrow> parts_loop ps
      | None \<Rightarrow>
          (if mimeType pl = ''text/plain'' then decode_data pl
           else if mimeType pl = ''text/html'' then decode_data pl
           else Inr []))"

text \<open>The loop \<^verbatim>\<open>for header in headers\<close>: a later header of the same name overwrites.\<close>

fun header_loop :: "header list \<Rightarrow> email \<Rightarrow> email" where
  "header_loop [] email_data = email_data"
| "header_loop (h # hs) email_data =
     (let name = lower (h_name h) in
      header_loop hs
        (if name = ''date'' then email_data\<lparr>email_date := Some (h_value h)\<rparr>
         else if name = ''from'' then email_data\<lparr>email_from := Some (h_value h)\<rparr>
         else if name = ''to'' then email_data\<lparr>email_to := Some (h_value h)\<rparr>
         else if name = ''subject'' then email_data\<lparr>email_subject := Some (h_value h)\<rparr>
         else email_data))"

definition parse_email :: "message \<Rightarrow> exn + email" where
  "parse_email msg =
     (case payload msg of
        None \<Rightarrow> Inl (KeyError ''payload'')
      | Some pl \<Rightarrow>
     (case msg_id msg of
        None \<Rightarrow> Inl (KeyError ''id'')
      | Some i \<Rightarrow>
     (case threadId msg of
        None \<Rightarrow> Inl (KeyError ''threadId'')
      | Some t \<Rightarrow>
     (case snippet msg of
        None \<Rightarrow> Inl (KeyError ''snippet'')
      | Some s \<Rightarrow>
          (let hs = (case headers pl of None \<Rightarrow> [] | Some l \<Rightarrow> l);
               email_data = header_loop hs
                 \<lparr>email_id = i, email_thread_id = t, email_snippet = s,
                  email_date = None, email_from = None, email_to = None,
                  email_subject = None, email_body = [], email_is_html = False\<rparr>
           in case get_message_body pl of
                Inl e \<Rightarrow> Inl e
              | Inr body \<Rightarrow> Inr (email_data\<lparr>email_body := body\<rparr>))))))"

section \<open>The gateway\<close>

text \<open>
  \<^verbatim>\<open>self.service\<close>: what each remote call answers, an exception or a dictionary. The
  calls a method issues are appended to a log, which is the method's effect on the remote
  side.
\<close>

record modify_body =
  removeLabelIds :: "string list option"
  addLabelIds :: "string list option"

record list_result =
  messages :: "message list option"

datatype request =
    ListMessages string string int
  | GetMessage string string
  | SendMessage string message
  | ModifyMessage string string modify_body

record service =
  messages_list :: "string \<Rightarrow> string \<Rightarrow> int \<Rightarrow> exn + list_result"
  messages_get :: "string \<Rightarrow> string \<Rightarrow> exn + message"
  messages_send :: "string \<Rightarrow> message \<Rightarrow> exn + message"
  messages_modify :: "string \<Rightarrow> string \<Rightarrow> modify_body \<Rightarrow> exn + message"

text \<open>\<^verbatim>\<open>mark_as_read\<close>\<close>

definition mark_as_read ::
  "service \<Rightarrow> string \<Rightarrow> request list \<Rightarrow> (exn + bool) \<times> request list" where
  "mark_as_read svc message_id log =
     (let body = \<lparr>removeLabelIds = Some [''UNREAD''], addLabelIds = None\<rparr>;
          log' = log @ [ModifyMessage ''me'' message_id body]
      in case messages_modify svc ''me'' message_id body of
           Inr _ \<Rightarrow> (Inr True, log')
         | Inl (HttpError status reason) \<Rightarrow> (Inr False, log')
         | Inl e \<Rightarrow> (Inl e, log'))"

text \<open>
  What a label delta does to the label set of the message it names, on the remote side:
  the labels of \<^verbatim>\<open>removeLabelIds\<close> leave the set and those of \<^verbatim>\<open>addLabelIds\<close> join it.
\<close>

definition apply_label_delta :: "modify_body \<Rightarrow> string set \<Rightarrow> string set" where
  "apply_label_delta body labels =
     (labels - (case removeLabelIds body of None \<Rightarrow> {} | Some r \<Rightarrow> set r))
       \<union> (case addLabelIds body of None \<Rightarrow> {} | Some a \<Rightarrow> set a)"

text \<open>
  Python's truth value of an optional \<^verbatim>\<open>str\<close> argument: \<^verbatim>\<open>None\<close> and the empty string
  are false.
\<close>

definition truthy :: "string option \<Rightarrow> bool" where
  "truthy x = (case x of None \<Rightarrow> False | Some s \<Rightarrow> s \<noteq> [])"

text \<open>The query of \<^verbatim>\<open>get_unread_emails\<close> and that of \<^verbatim>\<open>get_emails_by_filter\<close>.\<close>

definition unread_query :: "string option \<Rightarrow> string option \<Rightarrow> string" where
  "unread_query sender_filter subject_filter =
     (let query = ''is:unread'';
          query = (case sender_filter of
                     Some s \<Rightarrow> if s \<noteq> [] then query @ '' from:'' @ s else query
                   | None \<Rightarrow> query);
          query = (case subject_filter of
                     Some s \<Rightarrow> if s \<noteq> [] then query @ '' subject:'' @ s else query
                   | None \<Rightarrow> query)
      in query)"

definition filter_query :: "string \<Rightarrow> string \<Rightarrow> string" where
  "filter_query date_str query_filter =
     (let query = ''after:'' @ date_str
      in if query_filter \<noteq> [] then query @ '' '' @ query_filter else query)"

text \<open>
  The body of the loop \<^verbatim>\<open>for message in messages\<close>, which both read methods share: fetch
  the message by its id, then parse it.
\<close>

definition fetch_requests :: "message \<Rightarrow> request list" where
  "fetch_requests m = (case msg_id m of None \<Rightarrow> [] | Some i \<Rightarrow> [GetMessage ''me'' i])"

definition fetch_one :: "service \<Rightarrow> message \<Rightarrow> exn + email" where
  "fetch_one svc m =
     (case msg_id m of
        None \<Rightarrow> Inl (KeyError ''id'')
      | Some i \<Rightarrow>
          (case messages_get svc ''me'' i of
             Inl e \<Rightarrow> Inl e
           | Inr msg \<Rightarrow> parse_email msg))"

fun fetch_loop ::
  "service \<Rightarrow> message list \<Rightarrow> email list \<Rightarrow> request list
     \<Rightarrow> (exn + email list) \<times> request list" where
  "fetch_loop svc [] emails log = (Inr emails, log)"
| "fetch_loop svc (m # ms) emails log =
     (case fetch_one svc m of
        Inl e \<Rightarrow> (Inl e, log @ fetch_requests m)
      | Inr email_data \<Rightarrow> fetch_loop svc ms (emails @ [email_data]) (log @ fetch_requests m))"

text \<open>
  The statements from \<^verbatim>\<open>messages().list\<close> to \<^verbatim>\<open>return emails\<close>, the same in both
  methods.
\<close>

definition list_and_fetch ::
  "service \<Rightarrow> string \<Rightarrow> int \<Rightarrow> request list \<Rightarrow> (exn + email list) \<times> request list" where
  "list_and_fetch svc query limit log =
     (case messages_list svc ''me'' query limit of
        Inl e \<Rightarrow> (Inl e, log @ [ListMessages ''me'' query limit])
      | Inr results \<Rightarrow>
          fetch_loop svc (case messages results of None \<Rightarrow> [] | Some ms \<Rightarrow> ms) []
            (log @ [ListMessages ''me'' query limit]))"

text \<open>
  The handler \<^verbatim>\<open>except HttpError as error: print(...); return []\<close> around the whole body of
  each read method.
\<close>

definition except_HttpError ::
  "(exn + email list) \<times> request list \<Rightarrow> (exn + email list) \<times> request list" where
  "except_HttpError r =
     (case fst r of
        Inl (HttpError status reason) \<Rightarrow> (Inr [], snd r)
      | _ \<Rightarrow> r)"

definition get_unread_emails ::
  "service \<Rightarrow> int \<Rightarrow> string option \<Rightarrow> string option \<Rightarrow> request list
     \<Rightarrow> (exn + email list) \<times> request list" where
  "get_unread_emails svc limit sender_filter subject_filter log =
     except_HttpError
       (list_and_fetch svc (unread_query sender_filter subject_filter) limit log)"

text \<open>
  \<open>date_str_of days\<close> stands for
  \<^verbatim>\<open>(datetime.now() - timedelta(days=days)).strftime('%Y/%m/%d')\<close>, which reads the clock and
  raises \<^verbatim>\<open>OverflowError\<close> when the date leaves the calendar.
\<close>

definition get_emails_by_filter ::
  "(int \<Rightarrow> exn + string) \<Rightarrow> service \<Rightarrow> int \<Rightarrow> int \<Rightarrow> string \<Rightarrow> request list
     \<Rightarrow> (exn + email list) \<times> request list" where
  "get_emails_by_filter date_str_of svc days limit query_filter log =
     except_HttpError
       (case date_str_of days of
          Inl e \<Rightarrow> (Inl e, log)
        | Inr date_str \<Rightarrow> list_and_fetch svc (filter_query date_str query_filter) limit log)"

text \<open>
  The part whose body \<^verbatim>\<open>_get_message_body\<close> decodes, if any: the first child that is
  \<^verbatim>\<open>text/plain\<close> or \<^verbatim>\<open>text/html\<close>, or the payload itself when it has no \<^verbatim>\<open>parts\<close> key and
  is of one of these types.
\<close>

definition is_text :: "part \<Rightarrow> bool" where
  "is_text p = (mimeType p = ''text/plain'' \<or> mimeType p = ''text/html'')"

definition chosen_part :: "part \<Rightarrow> part option" where
  "chosen_part pl =
     (case parts pl of
        Some ps \<Rightarrow> find is_text ps
      | None \<Rightarrow> if is_text pl then Some pl else None)"

text \<open>Sample messages and a sample remote side.\<close>

definition text_part :: "string \<Rightarrow> string \<Rightarrow> part" where
  "text_part mime_type d = Part mime_type None (Some d) None"

definition sample_message :: "string \<Rightarrow> part \<Rightarrow> message" where
  "sample_message i pl =
     \<lparr>msg_id = Some i, threadId = Some ''t1'', snippet = Some ''Hi'',
      payload = Some pl, raw = None\<rparr>"

definition listed :: "string \<Rightarrow> message" where
  "listed i = \<lparr>msg_id = Some i, threadId = Some ''t1'', snippet = None,
     payload = None, raw = None\<rparr>"


definition plain_first :: part where
  "plain_first = Part ''multipart/alternative'' (Some [Header ''Subject'' ''Hi'']) None
     (Some [text_part ''text/plain'' ''SGk='', text_part ''text/html'' ''PHA-SGk8L3A-''])"

definition single_html :: part where
  "single_html = Part ''text/html'' None (Some ''SGVsbG8='') None"

definition bad_base64 :: part where
  "bad_base64 = Part ''text/plain'' None (Some ''A'') None"

definition bad_utf8 :: part where
  "bad_utf8 = Part ''text/plain'' None (Some ''_w=='') None"

text \<open>A remote side that lists two messages and fails to deliver the second.\<close>

definition one_fetch_fails :: service where
  "one_fetch_fails =
     \<lparr>messages_list = (\<lambda>userId q maxResults. Inr \<lparr>messages = Some [listed ''m1'', listed ''m2'']\<rparr>),
      messages_get = (\<lambda>userId i.
         if i = ''m1'' then Inr (sample_message ''m1'' plain_first)
         else Inl (HttpError 500 ''Backend Error'')),
      messages_send = (\<lambda>userId body. Inl (HttpError 400 ''Bad Request'')),
      messages_modify = (\<lambda>userId i body. Inl (HttpError 400 ''Bad Request''))\<rparr>"

text \<open>A remote side that lists two messages, the first of which has a malformed body.\<close>

definition one_body_malformed :: service where
  "one_body_malformed =
     \<lparr>messages_list = (\<lambda>userId q maxResults. Inr \<lparr>messages = Some [listed ''m1'', listed ''m2'']\<rparr>),
      messages_get = (\<lambda>userId i.
         if i = ''m1'' then Inr (sample_message ''m1'' bad_base64)
         else Inr (sample_message i plain_first)),
      messages_send = (\<lambda>userId body. Inl (HttpError 400 ''Bad Request'')),
      messages_modify = (\<lambda>userId i body. Inl (HttpError 400 ''Bad Request''))\<rparr>"

definition today :: "int \<Rightarrow> exn + string" where
  "today days = Inr ''2024/01/01''"

section \<open>Encoding: \<^verbatim>\<open>send_email\<close>\<close>














definition accepting :: service where
  "accepting =
     \<lparr>messages_list = (\<lambda>userId q maxResults. Inr \<lparr>messages = None\<rparr>),
      messages_get = (\<lambda>userId i. Inl (HttpError 404 ''Not Found'')),
      messages_send = (\<lambda>userId body.
         Inr \<lparr>msg_id = Some ''m9'', threadId = Some ''t9'', snippet = None,
              payload = None, raw = None\<rparr>),
      messages_modify = (\<lambda>userId i body. Inl (HttpError 404 ''Not Found''))\<rparr>"

section \<open>Credentials: \<^verbatim>\<open>authenticate\<close> and the \<^verbatim>\<open>auth-code\<close> command\<close>

text \<open>
  A credential object of the authentication library, with its properties \<^verbatim>\<open>expired\<close> and
  \<^verbatim>\<open>valid\<close> at the clock reading \<open>now\<close>: expired when an expiry is set and has been
  reached, valid when there is a token and it has not expired. The margin by which the
  library anticipates the expiry is counted into the clock reading.
\<close>

record credentials =
  token :: "string option"
  refresh_token :: "string option"
  expiry :: "nat option"

definition expired :: "nat \<Rightarrow> credentials \<Rightarrow> bool" where
  "expired now c = (case expiry c of None \<Rightarrow> False | Some t \<Rightarrow> t \<le> now)"

definition valid :: "nat \<Rightarrow> credentials \<Rightarrow> bool" where
  "valid now c = (token c \<noteq> None \<and> \<not> expired now c)"

text \<open>
  What \<^verbatim>\<open>with open(token_path, 'w') as token: token.write(...)\<close> does to the file
  \<^verbatim>\<open>token.json\<close>: opening for writing empties the file, then the text is written to it.
\<close>

datatype file_op = Truncate | Write string

fun apply_file_op :: "file_op \<Rightarrow> string option \<Rightarrow> string option" where
  "apply_file_op Truncate f = Some []"
| "apply_file_op (Write d) f = Some ((case f of None \<Rightarrow> [] | Some old \<Rightarrow> old) @ d)"

text \<open>
  The effects of a run, in order: reading the token file, the exchanges with the token
  endpoint (refresh, interactive consent, exchange of an authorisation code), the
  operations on the token file, and the construction of the API client.
\<close>

datatype event =
    LoadToken
  | RefreshExchange
  | ConsentFlow
  | AuthCodeExchange string
  | FileOp file_op
  | BuildService

text \<open>
  The libraries and the remote side, as far as \<^verbatim>\<open>authenticate\<close> uses them; a flow object is
  represented by the client secrets it was made from.
\<close>

record auth_env =
  now :: nat
  from_authorized_user_file :: "string \<Rightarrow> exn + credentials"
  refresh :: "credentials \<Rightarrow> exn + credentials"
  from_client_secrets_file :: "string \<Rightarrow> exn + string"
  run_local_server :: "string \<Rightarrow> exn + credentials"
  fetch_token :: "string \<Rightarrow> string \<Rightarrow> exn + credentials"
  to_json :: "credentials \<Rightarrow> string"
  build :: "credentials \<Rightarrow> exn + service"

text \<open>
  The state a run works on: the contents of \<^verbatim>\<open>token.json\<close> and \<^verbatim>\<open>credentials.json\<close>
  (\<open>None\<close> when the file does not exist), \<^verbatim>\<open>self.service\<close>, and the effects so far.
\<close>

record auth_state =
  token_file :: "string option"
  credentials_file :: "string option"
  current_service :: "service option"
  events :: "event list"

definition add_event :: "event \<Rightarrow> auth_state \<Rightarrow> auth_state" where
  "add_event ev st = st\<lparr>events := events st @ [ev]\<rparr>"

definition file_step :: "file_op \<Rightarrow> auth_state \<Rightarrow> auth_state" where
  "file_step fop st =
     st\<lparr>token_file := apply_file_op fop (token_file st), events := events st @ [FileOp fop]\<rparr>"

text \<open>The two lines under \<^verbatim>\<open># Save credentials\<close>, the same in \<^verbatim>\<open>authenticate\<close> and in
  \<^verbatim>\<open>main\<close>.\<close>

definition save_token :: "string \<Rightarrow> auth_state \<Rightarrow> auth_state" where
  "save_token json st = file_step (Write json) (file_step Truncate st)"

text \<open>How a block of statements ends: with an exception, with \<^verbatim>\<open>return\<close>, or by falling
  through to the next statement.\<close>

datatype 'a outcome = Raised exn | Returned bool | Continue 'a

text \<open>The \<^verbatim>\<open>else\<close> branch: the interactive consent flow.\<close>

definition consent :: "auth_env \<Rightarrow> auth_state \<Rightarrow> credentials outcome \<times> auth_state" where
  "consent env st =
     (case credentials_file st of
        None \<Rightarrow> (Returned False, st)
      | Some secrets \<Rightarrow>
          (case from_client_secrets_file env secrets of
             Inl e \<Rightarrow> (Raised e, st)
           | Inr flow \<Rightarrow>
               (case run_local_server env flow of
                  Inl e \<Rightarrow> (Returned False, add_event ConsentFlow st)
                | Inr c \<Rightarrow> (Continue c, save_token (to_json env c) (add_event ConsentFlow st)))))"

text \<open>The block \<^verbatim>\<open>if not creds or not creds.valid:\<close>.\<close>

definition acquire ::
  "auth_env \<Rightarrow> credentials option \<Rightarrow> auth_state \<Rightarrow> credentials outcome \<times> auth_state" where
  "acquire env creds st =
     (case creds of
        None \<Rightarrow> consent env st
      | Some c \<Rightarrow>
          if valid (now env) c then (Continue c, st)
          else if expired (now env) c \<and> truthy (refresh_token c) then
            (case refresh env c of
               Inl e \<Rightarrow> (Raised e, add_event RefreshExchange st)
             | Inr c' \<Rightarrow>
                 (Continue c', save_token (to_json env c') (add_event RefreshExchange st)))
          else consent env st)"

text \<open>The last statements of \<^verbatim>\<open>authenticate\<close>: build the API client from the credential.\<close>

definition finish ::
  "auth_env \<Rightarrow> credentials outcome \<times> auth_state \<Rightarrow> (exn + bool) \<times> auth_state" where
  "finish env r =
     (case fst r of
        Raised e \<Rightarrow> (Inl e, snd r)
      | Returned b \<Rightarrow> (Inr b, snd r)
      | Continue c \<Rightarrow>
          (case build env c of
             Inl e \<Rightarrow> (Inr False, add_event BuildService (snd r))
           | Inr s \<Rightarrow> (Inr True, (add_event BuildService (snd r))\<lparr>current_service := Some s\<rparr>)))"

definition authenticate :: "auth_env \<Rightarrow> auth_state \<Rightarrow> (exn + bool) \<times> auth_state" where
  "authenticate env st =
     (case token_file st of
        None \<Rightarrow> finish env (acquire env None st)
      | Some content \<Rightarrow>
          (case from_authorized_user_file env content of
             Inl e \<Rightarrow> (Inl e, add_event LoadToken st)
           | Inr c \<Rightarrow> finish env (acquire env (Some c) (add_event LoadToken st))))"

text \<open>
  The command \<^verbatim>\<open>auth-code\<close> of \<^verbatim>\<open>main\<close>, which exchanges an authorisation code for a
  credential; the result is whether the process goes on (\<open>True\<close>) or exits with status 1,
  as it does at once when no code is given.
\<close>

definition auth_code ::
  "auth_env \<Rightarrow> string option \<Rightarrow> auth_state \<Rightarrow> (exn + bool) \<times> auth_state" where
  "auth_code env code st =
     (case code of
        None \<Rightarrow> (Inr False, st)
      | Some cd \<Rightarrow>
     (if cd = [] then (Inr False, st)
      else
     (case credentials_file st of
        None \<Rightarrow> (Inl (OtherError ''FileNotFoundError''), st)
      | Some secrets \<Rightarrow>
          (case from_client_secrets_file env secrets of
             Inl e \<Rightarrow> (Inl e, st)
           | Inr flow \<Rightarrow>
               (case fetch_token env flow cd of
                  Inl e \<Rightarrow> (Inr False, add_event (AuthCodeExchange cd) st)
                | Inr c \<Rightarrow>
                    (Inr True,
                     save_token (to_json env c) (add_event (AuthCodeExchange cd) st)))))))"

text \<open>
  The contents of the token file after each effect of a run, from the contents \<open>f\<close>
  before it: what an interruption at that point leaves on disk.
\<close>

fun apply_event :: "event \<Rightarrow> string option \<Rightarrow> string option" where
  "apply_event (FileOp fop) f = apply_file_op fop f"
| "apply_event ev f = f"

fun file_history :: "event list \<Rightarrow> string option \<Rightarrow> string option list" where
  "file_history [] f = [f]"
| "file_history (ev # evs) f = f # file_history evs (apply_event ev f)"

definition new_events :: "auth_state \<Rightarrow> auth_state \<Rightarrow> event list" where
  "new_events st st' = drop (length (events st)) (events st')"

text \<open>Sample credentials, libraries and disk.\<close>

definition old_credential :: credentials where
  "old_credential = \<lparr>token = Some ''old-token'', refresh_token = Some ''r1'', expiry = Some 100\<rparr>"

definition new_credential :: credentials where
  "new_credential = \<lparr>token = Some ''new-token'', refresh_token = Some ''r1'', expiry = Some 4000\<rparr>"

definition sample_env :: "nat \<Rightarrow> (exn + credentials) \<Rightarrow> auth_env" where
  "sample_env clock refreshed =
     \<lparr>now = clock,
      from_authorized_user_file = (\<lambda>content.
         if content = ''old-token;r1'' then Inr old_credential
         else if content = ''new-token;r1'' then Inr new_credential
         else Inl ValueError),
      refresh = (\<lambda>c. refreshed),
      from_client_secrets_file = (\<lambda>secrets. Inr secrets),
      run_local_server = (\<lambda>flow. Inr new_credential),
      fetch_token = (\<lambda>flow code. Inr new_credential),
      to_json = (\<lambda>c. (case token c of None \<Rightarrow> [] | Some t \<Rightarrow> t) @ '';''
                       @ (case refresh_token c of None \<Rightarrow> [] | Some r \<Rightarrow> r)),
      build = (\<lambda>c. Inr accepting)\<rparr>"

definition disk :: "string \<Rightarrow> auth_state" where
  "disk content =
     \<lparr>token_file = Some content, credentials_file = Some ''client-secret'',
      current_service = None, events = []\<rparr>"

text \<open>
  A write in place between two states: one exchange, then the token file is emptied, then
  the text is written, so that the file holds in turn its old contents, nothing, and the
  new text.
\<close>

definition in_place_write :: "auth_state \<Rightarrow> auth_state \<Rightarrow> string \<Rightarrow> bool" where
  "in_place_write st st' json =
     (token_file st' = Some json
      \<and> tl (new_events st st') = [FileOp Truncate, FileOp (Write json)]
      \<and> file_history (new_events st st') (token_file st) =
          [token_file st, token_file st, Some [], Some json])"


section \<open>Properties of the read path\<close>

lemma fetch_loop_stops:
  "list_all (\<lambda>m. \<not> isl (fetch_one svc m)) pre \<Longrightarrow> fetch_one svc bad = Inl e
   \<Longrightarrow> fst (fetch_loop svc (pre @ bad # post) emails log) = Inl e"
proof (induction pre arbitrary: emails log)
  case Nil
  then show ?case by simp
next
  case (Cons m pre)
  then obtain em where "fetch_one svc m = Inr em"
    by (cases "fetch_one svc m") auto
  with Cons show ?case by simp
qed

lemma list_and_fetch_stops:
  assumes "list_all (\<lambda>m. \<not> isl (fetch_one svc m)) pre"
    and "fetch_one svc bad = Inl e"
    and "messages_list svc ''me'' query limit = Inr results"
    and "messages results = Some (pre @ bad # post)"
  shows "fst (list_and_fetch svc query limit log) = Inl e"
  using assms(3,4) fetch_loop_stops [OF assms(1,2)] by (simp add: list_and_fetch_def)

lemma fst_except_HttpError:
  "fst r = Inl (HttpError status reason) \<Longrightarrow> fst (except_HttpError r) = Inr []"
  by (simp add: except_HttpError_def)

lemma fst_except_other:
  "fst r = Inl e \<Longrightarrow> \<not> is_HttpError e \<Longrightarrow> fst (except_HttpError r) = Inl e"
  by (cases e) (simp_all add: except_HttpError_def)

lemma parts_loop_find:
  "parts_loop ps = (case find is_text ps of None \<Rightarrow> Inr [] | Some p \<Rightarrow> decode_data p)"
  by (induction ps) (simp_all add: is_text_def)

lemma get_message_body_chosen:
  "get_message_body pl = (case chosen_part pl of None \<Rightarrow> Inr [] | Some p \<Rightarrow> decode_data p)"
  by (simp add: get_message_body_def chosen_part_def parts_loop_find is_text_def split: option.splits)

lemma a2b_base64_error:
  "a2b_base64 s q l p b = Inl e \<Longrightarrow> e = BinasciiError"
  by (induction s q l p b rule: a2b_base64.induct) (auto split: if_splits option.splits)

lemma decode_data_error:
  "decode_data p = Inl e \<Longrightarrow> \<not> is_HttpError e"
  by (auto simp: decode_data_def urlsafe_b64decode_def utf8_decode_def
      split: option.splits sum.splits if_splits dest: a2b_base64_error)


section \<open>Batch reads\<close>

text \<open>
  C1, as amended. Take a listing whose entries before some message all fetch and parse,
  and let the fetch of that message fail with a remote API error. Then
  \<open>get_unread_emails\<close> and \<open>get_emails_by_filter\<close> both return the empty list: the
  emails decoded before the failure are dropped with the rest of the batch, nothing is
  raised, and no count of failures is returned.
\<close>

theorem batch_read_aborts_on_fetch_error:
  assumes "list_all (\<lambda>m. \<not> isl (fetch_one svc m)) pre"
    and "msg_id bad = Some b"
    and "messages_get svc ''me'' b = Inl (HttpError status reason)"
    and "messages results = Some (pre @ bad # post)"
  shows "(messages_list svc ''me'' (unread_query sender_filter subject_filter) limit
            = Inr results
          \<longrightarrow> fst (get_unread_emails svc limit sender_filter subject_filter log) = Inr [])
       \<and> (date_str_of days = Inr date_str
          \<and> messages_list svc ''me'' (filter_query date_str query_filter) limit' = Inr results
          \<longrightarrow> fst (get_emails_by_filter date_str_of svc days limit' query_filter log) = Inr [])"
proof -
  have bad: "fetch_one svc bad = Inl (HttpError status reason)"
    using assms(2,3) by (simp add: fetch_one_def)
  have "fst (list_and_fetch svc q l log) = Inl (HttpError status reason)"
    if "messages_list svc ''me'' q l = Inr results" for q l
    using list_and_fetch_stops [OF assms(1) bad that assms(4)] .
  then show ?thesis
    by (auto simp: get_unread_emails_def get_emails_by_filter_def
        intro!: fst_except_HttpError)
qed

theorem batch_read_aborts_on_fetch_error_witness:
  "fst (get_unread_emails one_fetch_fails 10 None None []) = Inr []
   \<and> fst (get_emails_by_filter today one_fetch_fails 7 50 [] []) = Inr []"
proof -
  have 1: "list_all (\<lambda>m. \<not> isl (fetch_one one_fetch_fails m)) [listed ''m1'']"
    by code_simp
  have 2: "msg_id (listed ''m2'') = Some ''m2''"
    by (simp add: listed_def)
  have 3: "messages_get one_fetch_fails ''me'' ''m2'' = Inl (HttpError 500 ''Backend Error'')"
    by (simp add: one_fetch_fails_def)
  have 4: "messages \<lparr>messages = Some [listed ''m1'', listed ''m2'']\<rparr>
             = Some ([listed ''m1''] @ listed ''m2'' # [])"
    by simp
  show ?thesis
    using batch_read_aborts_on_fetch_error [OF 1 2 3 4, where sender_filter = None
        and subject_filter = None and limit = 10 and date_str_of = today and days = 7
        and date_str = "''2024/01/01''" and query_filter = "[]" and limit' = 50 and log = "[]"]
    by (simp add: one_fetch_fails_def today_def)
qed

text \<open>
  The claim as stated fails on a batch of two: the first message fetches and decodes, the
  fetch of the second answers 500, and both read methods return no email at all where
  the claim promises one.
\<close>

theorem batch_read_counterexample:
  "fetch_one one_fetch_fails (listed ''m1'') =
     Inr \<lparr>email_id = ''m1'', email_thread_id = ''t1'', email_snippet = ''Hi'',
       email_date = None, email_from = None, email_to = None, email_subject = Some ''Hi'',
       email_body = ''Hi'', email_is_html = False\<rparr>
   \<and> fetch_one one_fetch_fails (listed ''m2'') = Inl (HttpError 500 ''Backend Error'')
   \<and> get_unread_emails one_fetch_fails 10 None None [] =
       (Inr [], [ListMessages ''me'' ''is:unread'' 10, GetMessage ''me'' ''m1'',
                 GetMessage ''me'' ''m2''])
   \<and> get_emails_by_filter today one_fetch_fails 7 50 [] [] =
       (Inr [], [ListMessages ''me'' ''after:2024/01/01'' 50, GetMessage ''me'' ''m1'',
                 GetMessage ''me'' ''m2''])"
  by code_simp

section \<open>Body extraction\<close>




text \<open>
  C3. A single-part payload of type \<^verbatim>\<open>text/html\<close> with body \<^verbatim>\<open>SGVsbG8=\<close> decodes to the
  body \<^verbatim>\<open>Hello\<close>, but \<^verbatim>\<open>is_html\<close> stays at its initial value \<open>False\<close>: no statement of
  \<^verbatim>\<open>_parse_email\<close> or \<^verbatim>\<open>_get_message_body\<close> assigns the field.
\<close>

theorem single_html_part_is_html_false:
  "parse_email (sample_message ''m1'' single_html) =
     Inr \<lparr>email_id = ''m1'', email_thread_id = ''t1'', email_snippet = ''Hi'',
       email_date = None, email_from = None, email_to = None, email_subject = None,
       email_body = ''Hello'', email_is_html = False\<rparr>"
  by code_simp


section \<open>Malformed bodies\<close>

text \<open>
  C4, as amended. When the body of the chosen part fails to decode (no \<^verbatim>\<open>data\<close> key,
  a non-ASCII character, invalid base64 or invalid UTF-8), \<open>parse_email\<close> raises
  that exception and returns no email; and \<open>get_unread_emails\<close>, reaching such a
  message after messages that fetch and parse, raises the same exception, since its handler
  catches \<open>HttpError\<close> alone; so does \<open>get_emails_by_filter\<close>.
\<close>

theorem decode_failure_raises:
  assumes "payload msg = Some pl" "msg_id msg = Some i" "threadId msg = Some t"
    "snippet msg = Some s"
    and "chosen_part pl = Some p" and "decode_data p = Inl e"
  shows "parse_email msg = Inl e
     \<and> (list_all (\<lambda>m. \<not> isl (fetch_one svc m)) pre
        \<and> msg_id m = Some k \<and> messages_get svc ''me'' k = Inr msg
        \<and> messages results = Some (pre @ m # post)
        \<longrightarrow> (messages_list svc ''me'' (unread_query sender_filter subject_filter) limit
               = Inr results
             \<longrightarrow> fst (get_unread_emails svc limit sender_filter subject_filter log) = Inl e)
          \<and> (date_str_of days = Inr date_str
             \<and> messages_list svc ''me'' (filter_query date_str query_filter) limit'
                 = Inr results
             \<longrightarrow> fst (get_emails_by_filter date_str_of svc days limit' query_filter log)
                 = Inl e))"
proof -
  have body: "get_message_body pl = Inl e"
    using assms(5,6) by (simp add: get_message_body_chosen)
  then have parse: "parse_email msg = Inl e"
    using assms(1-4) by (simp add: parse_email_def Let_def)
  have other: "\<not> is_HttpError e"
    by (rule decode_data_error [OF assms(6)])
  have "fst (except_HttpError (list_and_fetch svc q l log)) = Inl e"
    if pre: "list_all (\<lambda>m. \<not> isl (fetch_one svc m)) pre"
      and m: "msg_id m = Some k" "messages_get svc ''me'' k = Inr msg"
      and ls: "messages results = Some (pre @ m # post)"
        "messages_list svc ''me'' q l = Inr results"
    for q l
  proof -
    have "fetch_one svc m = Inl e"
      using m parse by (simp add: fetch_one_def)
    from list_and_fetch_stops [OF pre this ls(2,1)] other show ?thesis
      by (rule fst_except_other)
  qed
  with parse show ?thesis
    by (auto simp: get_unread_emails_def get_emails_by_filter_def)
qed

theorem decode_failure_raises_witness:
  "parse_email (sample_message ''m1'' bad_base64) = Inl BinasciiError
   \<and> fst (get_unread_emails one_body_malformed 10 None None []) = Inl BinasciiError
   \<and> fst (get_emails_by_filter today one_body_malformed 7 50 [] []) = Inl BinasciiError"
proof -
  have p: "chosen_part bad_base64 = Some bad_base64"
    by (simp add: chosen_part_def bad_base64_def is_text_def)
  have d: "decode_data bad_base64 = Inl BinasciiError"
    by code_simp
  have "payload (sample_message ''m1'' bad_base64) = Some bad_base64"
    "msg_id (sample_message ''m1'' bad_base64) = Some ''m1''"
    "threadId (sample_message ''m1'' bad_base64) = Some ''t1''"
    "snippet (sample_message ''m1'' bad_base64) = Some ''Hi''"
    by (simp_all add: sample_message_def)
  from decode_failure_raises [OF this p d, where svc = one_body_malformed and pre = "[]"
      and m = "listed ''m1''" and k = "''m1''" and sender_filter = None
      and subject_filter = None and limit = 10
      and results = "\<lparr>messages = Some [listed ''m1'', listed ''m2'']\<rparr>"
      and post = "[listed ''m2'']" and log = "[]" and date_str_of = today and days = 7
      and date_str = "''2024/01/01''" and query_filter = "[]" and limit' = 50]
  show ?thesis
    by (simp add: one_body_malformed_def listed_def today_def)
qed

text \<open>
  Invalid base64 and invalid UTF-8 in a \<^verbatim>\<open>text/plain\<close> body: no email with an empty body
  comes back, and the batch stops at the first message.
\<close>

theorem malformed_body_counterexample:
  "parse_email (sample_message ''m1'' bad_base64) = Inl BinasciiError
   \<and> parse_email (sample_message ''m1'' bad_utf8) = Inl UnicodeDecodeError
   \<and> get_unread_emails one_body_malformed 10 None None [] =
       (Inl BinasciiError, [ListMessages ''me'' ''is:unread'' 10, GetMessage ''me'' ''m1''])"
  by code_simp

section \<open>Base64 decoding inverts encoding\<close>


















section \<open>Reply threading\<close>







section \<open>Encoding, then decoding\<close>





section \<open>The credential lifecycle\<close>


lemma expired_not_valid: "expired t c \<Longrightarrow> \<not> valid t c"
  by (simp add: valid_def)

lemma acquire_refresh_fails:
  "expired (now env) c \<Longrightarrow> truthy (refresh_token c) \<Longrightarrow> refresh env c = Inl e
   \<Longrightarrow> acquire env (Some c) st = (Raised e, add_event RefreshExchange st)"
  by (simp add: acquire_def expired_not_valid)



text \<open>
  C5, as amended. When the token file holds a credential that has expired and has a
  refresh token, and the refresh exchange fails, \<open>authenticate\<close> raises the exception
  of the refresh: the one exchange made is the refresh, no consent flow is started, and
  the token file and the client are left as they were.
\<close>

theorem refresh_failure_raises:
  assumes "token_file st = Some content"
    and "from_authorized_user_file env content = Inr c"
    and "expired (now env) c" and "truthy (refresh_token c)"
    and "refresh env c = Inl e"
  shows "fst (authenticate env st) = Inl e
     \<and> events (snd (authenticate env st)) = events st @ [LoadToken, RefreshExchange]
     \<and> token_file (snd (authenticate env st)) = token_file st
     \<and> current_service (snd (authenticate env st)) = current_service st"
  using assms
  by (simp add: authenticate_def acquire_refresh_fails finish_def add_event_def)

theorem refresh_failure_raises_witness:
  "expired 500 old_credential \<and> truthy (refresh_token old_credential)
   \<and> fst (authenticate (sample_env 500 (Inl (RefreshError ''invalid_grant'')))
        (disk ''old-token;r1'')) = Inl (RefreshError ''invalid_grant'')
   \<and> events (snd (authenticate (sample_env 500 (Inl (RefreshError ''invalid_grant'')))
        (disk ''old-token;r1''))) = [LoadToken, RefreshExchange]"
proof -
  let ?env = "sample_env 500 (Inl (RefreshError ''invalid_grant''))"
  have 1: "token_file (disk ''old-token;r1'') = Some ''old-token;r1''"
    by (simp add: disk_def)
  have 2: "from_authorized_user_file ?env ''old-token;r1'' = Inr old_credential"
    by (simp add: sample_env_def)
  have x: "expired 500 old_credential" "truthy (refresh_token old_credential)"
    by (simp_all add: expired_def truthy_def old_credential_def)
  then have 3: "expired (now ?env) old_credential"
    by (simp add: sample_env_def)
  have 4: "refresh ?env old_credential = Inl (RefreshError ''invalid_grant'')"
    by (simp add: sample_env_def)
  from refresh_failure_raises [OF 1 2 3 x(2) 4] x show ?thesis
    by (simp add: disk_def)
qed

text \<open>
  A revoked refresh token, with the client secrets in place and a consent flow that would
  succeed: the run ends with the refresh error, and the consent flow is never reached.
\<close>

theorem no_fall_through_counterexample:
  "fst (authenticate (sample_env 500 (Inl (RefreshError ''invalid_grant'')))
        (disk ''old-token;r1'')) = Inl (RefreshError ''invalid_grant'')
   \<and> events (snd (authenticate (sample_env 500 (Inl (RefreshError ''invalid_grant'')))
        (disk ''old-token;r1''))) = [LoadToken, RefreshExchange]
   \<and> credentials_file (disk ''old-token;r1'') = Some ''client-secret''
   \<and> run_local_server (sample_env 500 (Inl (RefreshError ''invalid_grant''))) ''client-secret''
       = Inr new_credential"
  by (simp add: authenticate_def acquire_def finish_def add_event_def sample_env_def disk_def
      valid_def expired_def truthy_def old_credential_def)

lemma in_place_write_save_token:
  assumes "apply_event ev (token_file st) = token_file st"
  shows "in_place_write st (save_token json (add_event ev st)) json"
  using assms
  by (simp add: in_place_write_def save_token_def file_step_def add_event_def new_events_def)

text \<open>
  C6, as amended. Every successful refresh, consent flow or exchange of an authorisation
  code is followed by a write of the new credential in place: the token file is opened
  for writing, which empties it, and the credential is then written. The file holds the
  new credential once the write is complete, and is empty between the two steps.
\<close>

theorem token_written_in_place:
  "(expired (now env) c \<and> truthy (refresh_token c) \<and> refresh env c = Inr c'
    \<longrightarrow> fst (acquire env (Some c) st) = Continue c'
        \<and> in_place_write st (snd (acquire env (Some c) st)) (to_json env c'))
   \<and> (credentials_file st = Some secrets \<and> from_client_secrets_file env secrets = Inr flow
      \<and> run_local_server env flow = Inr c'
    \<longrightarrow> fst (consent env st) = Continue c'
        \<and> in_place_write st (snd (consent env st)) (to_json env c'))
   \<and> (credentials_file st = Some secrets \<and> from_client_secrets_file env secrets = Inr flow
      \<and> code \<noteq> [] \<and> fetch_token env flow code = Inr c'
    \<longrightarrow> fst (auth_code env (Some code) st) = Inr True
        \<and> in_place_write st (snd (auth_code env (Some code) st)) (to_json env c'))"
  by (simp add: acquire_def consent_def auth_code_def expired_not_valid
      in_place_write_save_token)

theorem token_written_in_place_witness:
  "in_place_write (disk ''old-token;r1'')
     (snd (acquire (sample_env 500 (Inr new_credential)) (Some old_credential)
        (disk ''old-token;r1''))) ''new-token;r1''
   \<and> in_place_write (disk ''old-token;r1'')
     (snd (consent (sample_env 500 (Inr new_credential)) (disk ''old-token;r1'')))
     ''new-token;r1''
   \<and> in_place_write (disk ''old-token;r1'')
     (snd (auth_code (sample_env 500 (Inr new_credential)) (Some ''4/abc'')
        (disk ''old-token;r1'')))
     ''new-token;r1''"
proof -
  let ?env = "sample_env 500 (Inr new_credential)"
  have x: "expired (now ?env) old_credential" "truthy (refresh_token old_credential)"
    "refresh ?env old_credential = Inr new_credential"
    by (simp_all add: expired_def truthy_def old_credential_def sample_env_def)
  have y: "credentials_file (disk ''old-token;r1'') = Some ''client-secret''"
    "from_client_secrets_file ?env ''client-secret'' = Inr ''client-secret''"
    "run_local_server ?env ''client-secret'' = Inr new_credential"
    "fetch_token ?env ''client-secret'' ''4/abc'' = Inr new_credential"
    by (simp_all add: disk_def sample_env_def)
  have j: "to_json ?env new_credential = ''new-token;r1''"
    by (simp add: sample_env_def new_credential_def)
  from token_written_in_place [where env = ?env and c = old_credential
      and c' = new_credential and st = "disk ''old-token;r1''" and secrets = "''client-secret''"
      and flow = "''client-secret''" and code = "''4/abc''"] x y j
  show ?thesis by simp
qed

text \<open>
  A run that refreshes: after its third effect the token file is empty, neither the old
  credential nor the new one, and a later run that finds the file in this state cannot
  load it.
\<close>

theorem interrupted_write_counterexample:
  "events (snd (authenticate (sample_env 500 (Inr new_credential)) (disk ''old-token;r1''))) =
     [LoadToken, RefreshExchange, FileOp Truncate, FileOp (Write ''new-token;r1''),
      BuildService]
   \<and> file_history
       [LoadToken, RefreshExchange, FileOp Truncate, FileOp (Write ''new-token;r1''),
        BuildService] (Some ''old-token;r1'') =
     [Some ''old-token;r1'', Some ''old-token;r1'', Some ''old-token;r1'', Some [],
      Some ''new-token;r1'', Some ''new-token;r1'']
   \<and> fst (authenticate (sample_env 500 (Inr new_credential)) (disk [])) = Inl ValueError"
  by (simp add: authenticate_def acquire_def finish_def add_event_def sample_env_def disk_def
      valid_def expired_def truthy_def old_credential_def new_credential_def save_token_def
      file_step_def)

section \<open>Marking a message as read\<close>

text \<open>
  C10. For every message id, whatever the remote side answers, \<open>mark_as_read\<close> issues
  exactly one request, a modification of that message whose body removes the single label
  \<open>UNREAD\<close> and adds none; applied to any label set, this delta takes \<open>UNREAD\<close> out and
  leaves every other label as it was.
\<close>

theorem mark_as_read_removes_only_UNREAD:
  "\<exists>body. snd (mark_as_read svc message_id log) = log @ [ModifyMessage ''me'' message_id body]
     \<and> removeLabelIds body = Some [''UNREAD'']
     \<and> addLabelIds body = None
     \<and> (\<forall>labels. apply_label_delta body labels = labels - {''UNREAD''})"
  by (auto simp: mark_as_read_def Let_def apply_label_delta_def split: sum.splits exn.splits)

end
